theory Spec2Isabelle
  imports Main
begin

section \<open>Data model\<close>

text \<open>
  The agent state of the research page, as \<^verbatim>\<open>useCoAgent\<close> is initialised with it in
  \<^verbatim>\<open>page.tsx\<close>. The page reads every field through optional chaining
  (\<^verbatim>\<open>state?.status?.phase\<close>), so the state itself and each of its fields may be
  absent: \<open>None\<close> stands for \<^verbatim>\<open>undefined\<close> and \<^verbatim>\<open>null\<close>.

  A JavaScript string is modelled as a \<open>string\<close> whose characters stand for one UTF-16
  code unit each, so that \<open>length\<close> is \<^verbatim>\<open>.length\<close> and \<open>take\<close> is
  \<^verbatim>\<open>substring(0, n)\<close>; the model covers the strings whose code units are below 256.
  A JavaScript number is modelled as an \<open>int\<close>: the counts of the state are integers.
\<close>

record Source =
  title :: "string option"
  url :: "string option"
  snippet :: "string option"

record Status =
  phase :: "string option"
  error :: "string option"

record Research =
  query :: "string option"
  stage :: "string option"
  sources_found :: "int option"
  sources :: "Source list option"
  research_completed :: "bool option"

record Processing =
  progress :: "int option"
  report :: "string option"
  processing_completed :: "bool option"
  inProgress :: "bool option"

record Ui =
  showSources :: bool
  showProgress :: bool
  activeTab :: string

record ResearchAgentState =
  status :: "Status option"
  research :: "Research option"
  processing :: "Processing option"
  ui :: "Ui option"

text \<open>The \<^verbatim>\<open>initialState\<close> handed to \<^verbatim>\<open>useCoAgent\<close>.\<close>

definition initialState :: ResearchAgentState where
  "initialState =
     \<lparr>status = Some \<lparr>phase = Some ''idle'', error = None\<rparr>,
      research = Some \<lparr>query = Some '''', stage = Some ''not_started'',
        sources_found = Some 0, sources = Some [], research_completed = Some False\<rparr>,
      processing = Some \<lparr>progress = Some 0, report = None,
        processing_completed = Some False, inProgress = Some False\<rparr>,
      ui = Some \<lparr>showSources = False, showProgress = False, activeTab = ''chat''\<rparr>\<rparr>"

section \<open>JavaScript operations used by the page\<close>

text \<open>
  \<^verbatim>\<open>x || d\<close> on an optional string: the default is taken when \<^verbatim>\<open>x\<close> is
  undefined, null or the empty string (the falsy strings).
\<close>

definition truthy :: "string option \<Rightarrow> bool" where
  "truthy v = (case v of None \<Rightarrow> False | Some s \<Rightarrow> s \<noteq> [])"

definition or_default :: "string option \<Rightarrow> string \<Rightarrow> string" where
  "or_default v d = (case v of None \<Rightarrow> d | Some s \<Rightarrow> if s = [] then d else s)"

text \<open>
  \<^verbatim>\<open>Array.prototype.findIndex\<close> and \<^verbatim>\<open>indexOf\<close>: the index of the first match,
  \<open>-1\<close> when there is none.
\<close>

fun findIndex :: "('a \<Rightarrow> bool) \<Rightarrow> 'a list \<Rightarrow> int" where
  "findIndex P [] = - 1"
| "findIndex P (x # xs) =
     (if P x then 0 else (let i = findIndex P xs in if i < 0 then - 1 else i + 1))"

definition indexOf :: "'a list \<Rightarrow> 'a \<Rightarrow> int" where
  "indexOf xs x = findIndex (\<lambda>y. y = x) xs"

text \<open>
  \<^verbatim>\<open>s.split("_")\<close>, \<^verbatim>\<open>s.charAt(i)\<close>, \<^verbatim>\<open>s.slice(i)\<close> and
  \<^verbatim>\<open>words.join(" ")\<close>. \<^verbatim>\<open>toUpperCase\<close> is modelled on the ASCII letters, which
  is all the page applies it to (the first letters of the words of \<open>allPhases\<close>).
\<close>

fun js_split :: "char \<Rightarrow> string \<Rightarrow> string list" where
  "js_split sep [] = [[]]"
| "js_split sep (c # cs) =
     (if c = sep then [] # js_split sep cs
      else (case js_split sep cs of [] \<Rightarrow> [[c]] | w # ws \<Rightarrow> (c # w) # ws))"

definition charAt :: "string \<Rightarrow> nat \<Rightarrow> string" where
  "charAt s i = take 1 (drop i s)"

definition slice :: "string \<Rightarrow> nat \<Rightarrow> string" where
  "slice s i = drop i s"

definition upper_char :: "char \<Rightarrow> char" where
  "upper_char c =
     (case map_of (zip ''abcdefghijklmnopqrstuvwxyz'' ''ABCDEFGHIJKLMNOPQRSTUVWXYZ'') c of
        Some u \<Rightarrow> u
      | None \<Rightarrow> c)"

definition toUpperCase :: "string \<Rightarrow> string" where
  "toUpperCase s = map upper_char s"

fun js_join :: "string \<Rightarrow> string list \<Rightarrow> string" where
  "js_join sep [] = []"
| "js_join sep [w] = w"
| "js_join sep (w # ws) = w @ sep @ js_join sep ws"

text \<open>
  A number in a JSX text or a template literal: integers are printed in decimal (the
  rendering of JavaScript for integers of magnitude below \<open>10^21\<close>).
\<close>

fun nat_text :: "nat \<Rightarrow> string" where
  "nat_text n =
     (if n < 10 then [''0123456789'' ! n]
      else nat_text (n div 10) @ [''0123456789'' ! (n mod 10)])"

declare nat_text.simps [simp del]

definition number_text :: "int \<Rightarrow> string" where
  "number_text i = (if i < 0 then CHR ''-'' # nat_text (nat (- i)) else nat_text (nat i))"

text \<open>A JSX child: \<^verbatim>\<open>undefined\<close> and \<^verbatim>\<open>null\<close> render nothing.\<close>

definition jsx_text :: "string option \<Rightarrow> string" where
  "jsx_text v = (case v of None \<Rightarrow> [] | Some s \<Rightarrow> s)"

definition jsx_number :: "int option \<Rightarrow> string" where
  "jsx_number v = (case v of None \<Rightarrow> [] | Some n \<Rightarrow> number_text n)"

text \<open>
  Reading a property of \<^verbatim>\<open>undefined\<close> or \<^verbatim>\<open>null\<close> without optional chaining
  throws a \<^verbatim>\<open>TypeError\<close>.
\<close>

datatype js_error = TypeError

definition strict :: "'a option \<Rightarrow> js_error + 'a" where
  "strict v = (case v of None \<Rightarrow> Inl TypeError | Some x \<Rightarrow> Inr x)"

text \<open>The optional chains the page and its components read the state through.\<close>

definition phase_of :: "ResearchAgentState option \<Rightarrow> string option" where
  "phase_of st = Option.bind (Option.bind st status) phase"

definition stage_of :: "ResearchAgentState option \<Rightarrow> string option" where
  "stage_of st = Option.bind (Option.bind st research) stage"

definition query_of :: "ResearchAgentState option \<Rightarrow> string option" where
  "query_of st = Option.bind (Option.bind st research) query"

definition sources_found_of :: "ResearchAgentState option \<Rightarrow> int option" where
  "sources_found_of st = Option.bind (Option.bind st research) sources_found"

definition sources_of :: "ResearchAgentState option \<Rightarrow> Source list option" where
  "sources_of st = Option.bind (Option.bind st research) sources"

definition report_of :: "ResearchAgentState option \<Rightarrow> string option" where
  "report_of st = Option.bind (Option.bind st processing) report"

section \<open>The phase and stage describer\<close>

text \<open>
  \<^verbatim>\<open>getStepDetails\<close> builds the object literal \<^verbatim>\<open>phaseMap\<close> and returns
  \<^verbatim>\<open>phaseMap[phase] || "Processing..."\<close>. A property read on an object literal finds
  the object's own properties first and then those it inherits from
  \<^verbatim>\<open>Object.prototype\<close>, whose members are functions and objects, not strings. The
  value read is therefore a string or such an inherited member.
\<close>

datatype jsval = JSString string | JSInherited string

text \<open>The property names every object literal inherits from \<^verbatim>\<open>Object.prototype\<close>.\<close>

definition objectPrototypeKeys :: "string list" where
  "objectPrototypeKeys =
     [''constructor'', ''__defineGetter__'', ''__defineSetter__'', ''hasOwnProperty'',
      ''__lookupGetter__'', ''__lookupSetter__'', ''isPrototypeOf'',
      ''propertyIsEnumerable'', ''toString'', ''valueOf'', ''__proto__'',
      ''toLocaleString'']"

definition get_property :: "(string \<times> string) list \<Rightarrow> string \<Rightarrow> jsval option" where
  "get_property props k =
     (case map_of props k of
        Some v \<Rightarrow> Some (JSString v)
      | None \<Rightarrow> if k \<in> set objectPrototypeKeys then Some (JSInherited k) else None)"

text \<open>\<^verbatim>\<open>v || d\<close>: functions and objects are truthy, the empty string is not.\<close>

definition js_or :: "jsval option \<Rightarrow> string \<Rightarrow> jsval" where
  "js_or v d =
     (case v of
        None \<Rightarrow> JSString d
      | Some (JSString s) \<Rightarrow> if s = [] then JSString d else JSString s
      | Some (JSInherited k) \<Rightarrow> JSInherited k)"

text \<open>
  A value inside a template literal. For the inherited members the text is the one V8
  prints for a native function, and for the prototype object itself.
\<close>

definition template_text :: "jsval \<Rightarrow> string" where
  "template_text v =
     (case v of
        JSString s \<Rightarrow> s
      | JSInherited k \<Rightarrow>
          if k = ''__proto__'' then ''[object Object]''
          else if k = ''constructor'' then ''function Object() { [native code] }''
          else ''function '' @ k @ ''() { [native code] }'')"

text \<open>\<^verbatim>\<open>getStepDetails\<close> of \<^verbatim>\<open>src/app/copilotkit/page.tsx\<close>, lines 42 to 82.\<close>

definition getStepDetails :: "string \<Rightarrow> string \<Rightarrow> jsval" where
  "getStepDetails ph stg =
     (let phaseMap =
        [(''idle'', ''Getting ready...''),
         (''initialized'', ''Setting up research parameters''),
         (''gathering_information'',
            if stg = ''searching'' then ''Searching the web for information''
            else ''Gathering and collecting data''),
         (''analyzing_information'',
            if stg = ''organizing_data'' then ''Organizing research data''
            else ''Processing and analyzing information''),
         (''generating_report'',
            if stg = ''creating_detailed_report'' \<or> stg = ''outlining_report''
              then ''Creating report outline''
            else if stg = ''drafting_executive_summary'' then ''Writing executive summary''
            else if stg = ''writing_introduction'' then ''Drafting introduction''
            else if stg = ''compiling_key_findings'' then ''Compiling key findings''
            else if stg = ''developing_analysis'' then ''Developing detailed analysis''
            else if stg = ''forming_conclusions'' then ''Forming conclusions''
            else if stg = ''finalizing_report'' then ''Finalizing comprehensive report''
            else ''Generating detailed report''),
         (''completed'',
            if stg = ''report_complete'' then ''Research report completed''
            else ''Research completed'')]
      in js_or (get_property phaseMap ph) ''Processing...'')"

text \<open>The copy of \<^verbatim>\<open>getStepDetails\<close> in the status-gated page, \<^verbatim>\<open>part_000\<close>.\<close>

definition getStepDetails_gated :: "string \<Rightarrow> string \<Rightarrow> jsval" where
  "getStepDetails_gated ph stg =
     (let phaseMap =
        [(''idle'', ''Getting ready...''),
         (''initialized'', ''Setting up research parameters''),
         (''gathering_information'',
            if stg = ''searching'' then ''Searching the web for information''
            else ''Gathering and collecting data''),
         (''analyzing_information'',
            if stg = ''organizing_data'' then ''Organizing research data''
            else ''Processing and analyzing information''),
         (''generating_report'',
            if stg = ''creating_detailed_report'' \<or> stg = ''outlining_report''
              then ''Creating report outline''
            else if stg = ''drafting_executive_summary'' then ''Writing executive summary''
            else if stg = ''writing_introduction'' then ''Drafting introduction''
            else if stg = ''compiling_key_findings'' then ''Compiling key findings''
            else if stg = ''developing_analysis'' then ''Developing detailed analysis''
            else if stg = ''forming_conclusions'' then ''Forming conclusions''
            else if stg = ''finalizing_report'' then ''Finalizing comprehensive report''
            else ''Generating detailed report''),
         (''completed'',
            if stg = ''report_complete'' then ''Research report completed''
            else ''Research completed'')]
      in js_or (get_property phaseMap ph) ''Processing...'')"

section \<open>The step derivation and the log entries\<close>

record DerivedStep =
  step_id :: string
  label :: string
  description :: jsval
  completed :: bool
  current :: bool

record LogEntry =
  log_done :: bool
  message :: string

definition allPhases :: "string list" where
  "allPhases =
     [''initialized'', ''gathering_information'', ''analyzing_information'',
      ''generating_report'', ''completed'']"

definition currentPhase :: "ResearchAgentState option \<Rightarrow> string" where
  "currentPhase st = or_default (phase_of st) ''idle''"

definition currentStage :: "ResearchAgentState option \<Rightarrow> string" where
  "currentStage st = or_default (stage_of st) ''not_started''"

text \<open>\<^verbatim>\<open>getStepsFromState\<close> of \<^verbatim>\<open>page.tsx\<close>, lines 101 to 123.\<close>

definition getStepsFromState :: "ResearchAgentState option \<Rightarrow> DerivedStep list" where
  "getStepsFromState st =
     map (\<lambda>ph.
        \<lparr>step_id = ph,
         label = js_join '' ''
           (map (\<lambda>word. toUpperCase (charAt word 0) @ slice word 1) (js_split CHR ''_'' ph)),
         description = getStepDetails ph (currentStage st),
         completed = (indexOf allPhases (currentPhase st) > indexOf allPhases ph),
         current = (currentPhase st = ph)\<rparr>)
       allPhases"

text \<open>\<^verbatim>\<open>logs\<close> of \<^verbatim>\<open>page.tsx\<close>, lines 125 to 132.\<close>

definition logs :: "DerivedStep list \<Rightarrow> LogEntry list" where
  "logs steps =
     (let currentStepIndex = findIndex current steps
      in map (\<lambda>(index, step).
           \<lparr>log_done = (completed step \<or> int index < currentStepIndex),
            message = label step @ '': '' @ template_text (description step)\<rparr>)
         (enumerate 0 steps))"

text \<open>The same two derivations as the status-gated page \<^verbatim>\<open>part_000\<close> writes them.\<close>

definition getStepsFromState_gated :: "ResearchAgentState option \<Rightarrow> DerivedStep list" where
  "getStepsFromState_gated st =
     map (\<lambda>ph.
        \<lparr>step_id = ph,
         label = js_join '' ''
           (map (\<lambda>word. toUpperCase (charAt word 0) @ slice word 1) (js_split CHR ''_'' ph)),
         description = getStepDetails_gated ph (currentStage st),
         completed = (indexOf allPhases (currentPhase st) > indexOf allPhases ph),
         current = (currentPhase st = ph)\<rparr>)
       allPhases"

definition logs_gated :: "DerivedStep list \<Rightarrow> LogEntry list" where
  "logs_gated steps =
     (let currentStepIndex = findIndex current steps
      in map (\<lambda>(index, step).
           \<lparr>log_done = (completed step \<or> int index < currentStepIndex),
            message = label step @ '': '' @ template_text (description step)\<rparr>)
         (enumerate 0 steps))"

section \<open>The progress log\<close>

text \<open>
  \<^verbatim>\<open>const truncateUrl = (url: string) => {
    if (url.length <= 50) return url;
    return url.substring(0, 47) + "...";
  };\<close>
  as the \<^verbatim>\<open>Progress\<close> component (\<^verbatim>\<open>part_001\<close>) and the status-gated page
  (\<^verbatim>\<open>part_000\<close>) each declare it.
\<close>

definition truncateUrl :: "string \<Rightarrow> string" where
  "truncateUrl u = (if length u \<le> 50 then u else take 47 u @ ''...'')"

definition truncateUrl_gated :: "string \<Rightarrow> string" where
  "truncateUrl_gated u = (if length u \<le> 50 then u else take 47 u @ ''...'')"

text \<open>
  \<^verbatim>\<open>message.replace(/https?:\/\/[^\s]+/g, (url) => truncateUrl(url))\<close>. The class
  \<^verbatim>\<open>\s\<close> is the white space of JavaScript among the code units below 256. A match
  starts at \<^verbatim>\<open>http://\<close> or \<^verbatim>\<open>https://\<close> followed by at least one character
  that is not white space, and runs over all the characters up to the next white space.
  The replacement scans from the left and goes on after each match.
\<close>

definition isWhitespace :: "char \<Rightarrow> bool" where
  "isWhitespace c = ((of_char c :: nat) \<in> {9, 10, 11, 12, 13, 32, 160})"

definition match_url :: "string \<Rightarrow> string option" where
  "match_url s =
     (let scheme =
        (if take 8 s = ''https://'' then Some (8::nat)
         else if take 7 s = ''http://'' then Some 7
         else None)
      in case scheme of
           None \<Rightarrow> None
         | Some n \<Rightarrow>
             (let rest = takeWhile (\<lambda>c. \<not> isWhitespace c) (drop n s)
              in if rest = [] then None else Some (take n s @ rest)))"

function replace_urls :: "(string \<Rightarrow> string) \<Rightarrow> string \<Rightarrow> string" where
  "replace_urls f [] = []"
| "replace_urls f (c # cs) =
     (case match_url (c # cs) of
        None \<Rightarrow> c # replace_urls f cs
      | Some m \<Rightarrow> f m @ replace_urls f (drop (length m) (c # cs)))"
  by pat_completeness auto
termination
  by (relation "measure (\<lambda>(f, s). length s)")
    (auto simp: match_url_def Let_def split: if_splits option.splits)

text \<open>What the progress log shows: one item per log entry, and the count of sources.\<close>

record StepItem =
  dimmed :: bool
  test_id :: string
  check_icon :: bool
  connector :: bool
  item_text :: string

record ProgressView =
  items :: "StepItem list"
  source_count :: "string option"

text \<open>The \<^verbatim>\<open>Progress\<close> component of \<^verbatim>\<open>part_001\<close>; \<open>None\<close> is \<^verbatim>\<open>null\<close>.\<close>

definition Progress :: "LogEntry list \<Rightarrow> ResearchAgentState option \<Rightarrow> ProgressView option" where
  "Progress ls st =
     (if length ls = 0 then None
      else Some
        \<lparr>items =
           map (\<lambda>(index, log).
              \<lparr>dimmed = (\<not> (log_done log
                   \<or> int index = findIndex (\<lambda>log. \<not> log_done log) ls)),
               test_id = (if log_done log then ''progress-step-item_done''
                          else ''progress-step-item_loading''),
               check_icon = log_done log,
               connector = (int index < int (length ls) - 1),
               item_text = replace_urls (\<lambda>url. truncateUrl url) (message log)\<rparr>)
             (enumerate 0 ls),
         source_count =
           (if (case sources_found_of st of None \<Rightarrow> 0 | Some n \<Rightarrow> n) > 0
            then Some (''Found '' @ jsx_number (sources_found_of st) @ '' source''
                   @ (if sources_found_of st \<noteq> Some 1 then ''s'' else []))
            else None)\<rparr>)"

section \<open>The page: run controller and render callbacks\<close>

text \<open>
  What the page holds besides what it shows: the agent state \<^verbatim>\<open>useCoAgent\<close> returns,
  the ref \<^verbatim>\<open>isResearchInProgress\<close>, the clock in milliseconds, the due times of the
  pending \<^verbatim>\<open>setTimeout\<close> callbacks, and the times at which
  \<^verbatim>\<open>stopResearchAgent\<close> was called.
\<close>

record PageRuntime =
  agent_state :: "ResearchAgentState option"
  isResearchInProgress :: bool
  now :: nat
  timers :: "nat list"
  stop_calls :: "nat list"

definition initialRuntime :: PageRuntime where
  "initialRuntime =
     \<lparr>agent_state = Some initialState, isResearchInProgress = False, now = 0,
      timers = [], stop_calls = []\<rparr>"




text \<open>\<^verbatim>\<open>render\<close> of \<^verbatim>\<open>page.tsx\<close>, lines 96 to 143: the progress log is always shown.\<close>

definition render :: "ResearchAgentState option \<Rightarrow> PageRuntime \<Rightarrow> ProgressView option \<times> PageRuntime" where
  "render st rt =
     (let rt' = rt\<lparr>isResearchInProgress := True\<rparr>;
          steps = getStepsFromState st
      in (Progress (logs steps) st, rt'))"

text \<open>
  \<^verbatim>\<open>render\<close> of \<^verbatim>\<open>part_000\<close>, lines 96 to 217: gated by the run status, reading
  the state of the hook and building the same markup inline. The count of sources reads
  \<^verbatim>\<open>state.research.sources_found\<close> without optional chaining.
\<close>

definition render_gated :: "string \<Rightarrow> PageRuntime \<Rightarrow> (js_error + ProgressView option) \<times> PageRuntime" where
  "render_gated run_status rt =
     (if run_status = ''inProgress'' \<or> run_status = ''complete'' then
        (let rt' = rt\<lparr>isResearchInProgress := True\<rparr>;
             st = agent_state rt;
             ls = logs_gated (getStepsFromState_gated st);
             its =
               map (\<lambda>(index, log).
                  \<lparr>dimmed = (\<not> (log_done log
                       \<or> int index = findIndex (\<lambda>log. \<not> log_done log) ls)),
                   test_id = (if log_done log then ''progress-step-item_done''
                              else ''progress-step-item_loading''),
                   check_icon = log_done log,
                   connector = (int index < int (length ls) - 1),
                   item_text = replace_urls (\<lambda>url. truncateUrl_gated url) (message log)\<rparr>)
                 (enumerate 0 ls)
         in if (case sources_found_of st of None \<Rightarrow> False | Some n \<Rightarrow> n > 0) then
              (case strict st of
                 Inl e \<Rightarrow> (Inl e, rt')
               | Inr s \<Rightarrow>
                  (case strict (research s) of
                     Inl e \<Rightarrow> (Inl e, rt')
                   | Inr r \<Rightarrow>
                      (Inr (Some
                         \<lparr>items = its,
                          source_count =
                            Some (''Found '' @ jsx_number (sources_found r) @ '' source''
                              @ (if sources_found r \<noteq> Some 1 then ''s'' else []))\<rparr>),
                       rt')))
            else (Inr (Some \<lparr>items = its, source_count = None\<rparr>), rt'))
      else if run_status = ''complete'' then (Inr None, rt\<lparr>isResearchInProgress := False\<rparr>)
      else (Inr None, rt))"




section \<open>The report and sources presenter\<close>

text \<open>
  What \<^verbatim>\<open>ReportCanvas\<close> shows under its fixed title: the research question card, the
  status card, the report card (the report handed to the markdown renderer, or a
  placeholder with a heading, a paragraph and a badge counting the sources), and the
  sources card (its count line and one entry per source).
\<close>

record SourceItem =
  position :: int
  link_href :: "string option"
  link_text :: string
  snippet_text :: "string option"
  url_text :: string

datatype ReportCard =
  ReportBody "string option"
  | Placeholder string string "string option"

record ReportCanvasView =
  question_card :: "string option"
  status_card :: bool
  report_card :: ReportCard
  sources_card :: "(string \<times> SourceItem list) option"

text \<open>Lines 25 to 52: shown when the query is truthy; the text is read from \<^verbatim>\<open>state.research?.query\<close>.\<close>

definition QuestionCard :: "ResearchAgentState option \<Rightarrow> js_error + string option" where
  "QuestionCard st =
     (if truthy (query_of st) then
        (case strict st of
           Inl e \<Rightarrow> Inl e
         | Inr s \<Rightarrow> Inr (Some (jsx_text (Option.bind (research s) query))))
      else Inr None)"

text \<open>Lines 55 to 69.\<close>

definition StatusCard :: "ResearchAgentState option \<Rightarrow> bool \<Rightarrow> bool" where
  "StatusCard st running = (running \<and> \<not> truthy (report_of st))"

text \<open>Lines 72 to 161.\<close>

definition ReportCardOf :: "ResearchAgentState option \<Rightarrow> bool \<Rightarrow> ReportCard" where
  "ReportCardOf st running =
     (if truthy (report_of st) then ReportBody (report_of st)
      else Placeholder
        (if running then ''Generating Report'' else ''Ready to Research'')
        (if running
         then ''Your research report will appear here once the analysis is complete.''
         else ''Ask me to research any topic and I'' @ [CHR 0x27]
           @ ''ll generate a comprehensive, well-structured report for you.'')
        (if (case sources_of st of None \<Rightarrow> 0 | Some xs \<Rightarrow> int (length xs)) > 0
         then Some (jsx_number (map_option (\<lambda>xs. int (length xs)) (sources_of st))
                @ '' source''
                @ (if map_option (\<lambda>xs. int (length xs)) (sources_of st) \<noteq> Some 1
                   then ''s'' else [])
                @ '' found'')
         else None))"

text \<open>
  Lines 164 to 239: shown when \<^verbatim>\<open>state?.research?.sources\<close> is there and
  \<^verbatim>\<open>state.research?.sources?.length > 0\<close>; inside, the sources are read from
  \<^verbatim>\<open>state.research?.sources\<close>.
\<close>

definition SourcesCard :: "ResearchAgentState option \<Rightarrow> js_error + (string \<times> SourceItem list) option" where
  "SourcesCard st =
     (case sources_of st of
        None \<Rightarrow> Inr None
      | Some _ \<Rightarrow>
         (case strict st of
            Inl e \<Rightarrow> Inl e
          | Inr s \<Rightarrow>
             (let srcs = Option.bind (research s) sources;
                  len = map_option (\<lambda>xs. int (length xs)) srcs
              in if (case len of None \<Rightarrow> False | Some n \<Rightarrow> n > 0) then
                   Inr (Some
                     (jsx_number len @ '' source''
                        @ (if len \<noteq> Some 1 then ''s'' else [])
                        @ '' used in this research'',
                      (case srcs of
                         None \<Rightarrow> []
                       | Some xs \<Rightarrow>
                          map (\<lambda>(index, resource).
                             \<lparr>position = int index + 1,
                              link_href = url resource,
                              link_text = jsx_text (title resource),
                              snippet_text =
                                (if truthy (snippet resource) then snippet resource else None),
                              url_text = jsx_text (url resource)\<rparr>)
                            (enumerate 0 xs))))
                 else Inr None)))"

definition ReportCanvas :: "ResearchAgentState option \<Rightarrow> bool \<Rightarrow> js_error + ReportCanvasView" where
  "ReportCanvas st running =
     (case QuestionCard st of
        Inl e \<Rightarrow> Inl e
      | Inr q \<Rightarrow>
         (case SourcesCard st of
            Inl e \<Rightarrow> Inl e
          | Inr sc \<Rightarrow>
             Inr \<lparr>question_card = q,
                  status_card = StatusCard st running,
                  report_card = ReportCardOf st running,
                  sources_card = sc\<rparr>))"

section \<open>Example states\<close>


text \<open>The initial state with a given report.\<close>

definition state_with_report :: "string option \<Rightarrow> ResearchAgentState" where
  "state_with_report r =
     initialState
       \<lparr>processing := Some \<lparr>progress = Some 100, report = r,
          processing_completed = Some True, inProgress = Some False\<rparr>\<rparr>"

section \<open>Notions used to state the properties of the run controller\<close>



section \<open>Properties of the JavaScript operations\<close>





lemma findIndex_least: "int j < findIndex P xs \<Longrightarrow> \<not> P (xs ! j)"
proof (induction xs arbitrary: j)
  case Nil
  then show ?case by simp
next
  case (Cons x xs)
  then show ?case
    by (cases j) (auto simp: Let_def split: if_splits)
qed


lemma map_enumerate_snd: "map (\<lambda>p. g (snd p)) (enumerate n xs) = map g xs"
  by (induction xs arbitrary: n) auto


section \<open>Properties of the URL truncation\<close>

lemma truncateUrl_gated_eq: "truncateUrl_gated = truncateUrl"
  by (simp add: fun_eq_iff truncateUrl_gated_def truncateUrl_def)

lemma truncateUrl_short: "length u \<le> 50 \<Longrightarrow> truncateUrl u = u"
  by (simp add: truncateUrl_def)

lemma truncateUrl_long: "50 < length u \<Longrightarrow> truncateUrl u = take 47 u @ ''...''"
  by (simp add: truncateUrl_def)

lemma length_truncateUrl_long: "50 < length u \<Longrightarrow> length (truncateUrl u) = 50"
  by (simp add: truncateUrl_def)

lemma length_truncateUrl_le: "length (truncateUrl u) \<le> 50"
  by (simp add: truncateUrl_def)

lemma agent_state_render: "agent_state (snd (render st rt)) = agent_state rt"
  by (simp add: render_def Let_def)

lemma agent_state_render_gated: "agent_state (snd (render_gated run_status rt)) = agent_state rt"
  by (simp add: render_gated_def Let_def strict_def split: option.splits)

lemma Progress_item_texts:
  assumes "Progress ls st = Some v"
  shows "map item_text (items v) = map (\<lambda>log. replace_urls truncateUrl (message log)) ls"
proof -
  from assms have "map item_text (items v)
      = map (\<lambda>p. replace_urls truncateUrl (message (snd p))) (enumerate 0 ls)"
    by (auto simp: Progress_def case_prod_unfold split: if_splits)
  also have "\<dots> = map (\<lambda>log. replace_urls truncateUrl (message log)) ls"
    by (rule map_enumerate_snd)
  finally show ?thesis .
qed

text \<open>
  Claim C4. Each copy of the truncation returns a string of at most 50 characters
  unchanged, and turns a longer one into its first 47 characters followed by three dots,
  50 characters in all. The truncation is applied to the text a log entry is shown with:
  the progress log shows every message with its URLs replaced, and neither render
  callback changes the agent state the page holds.
\<close>

theorem truncateUrl_contract:
  assumes "f = truncateUrl \<or> f = truncateUrl_gated"
  shows "(length s \<le> 50 \<longrightarrow> f s = s)
    \<and> (50 < length s \<longrightarrow> f s = take 47 s @ ''...'' \<and> length (f s) = 50)
    \<and> (\<forall>v. Progress ls st = Some v \<longrightarrow>
          map item_text (items v) = map (\<lambda>log. replace_urls truncateUrl (message log)) ls)
    \<and> agent_state (snd (render st rt)) = agent_state rt
    \<and> agent_state (snd (render_gated run_status rt)) = agent_state rt"
proof -
  from assms have f: "f = truncateUrl"
    by (auto simp: truncateUrl_gated_eq)
  show ?thesis
    unfolding f
    by (simp add: truncateUrl_short truncateUrl_long length_truncateUrl_long
        agent_state_render agent_state_render_gated Progress_item_texts)
qed

theorem truncateUrl_contract_witness:
  "truncateUrl_gated ''http://x.com'' = ''http://x.com''
   \<and> truncateUrl_gated (replicate 60 CHR ''a'') = replicate 47 CHR ''a'' @ ''...''
   \<and> length (truncateUrl_gated (replicate 60 CHR ''a'')) = 50
   \<and> agent_state (snd (render (Some initialState) initialRuntime)) = Some initialState"
proof -
  have "agent_state initialRuntime = Some initialState"
    by (simp add: initialRuntime_def)
  then show ?thesis
    using truncateUrl_contract [where f = truncateUrl_gated and s = "''http://x.com''"]
      truncateUrl_contract [where f = truncateUrl_gated and s = "replicate 60 CHR ''a''"
        and st = "Some initialState" and rt = initialRuntime]
    by simp
qed

text \<open>
  Claim C10. For each copy of the truncation: truncating twice is truncating once, the
  result never has more than 50 characters, and it has exactly 50 when the input has
  more than 50.
\<close>

theorem truncateUrl_idempotent_bounded:
  assumes "f = truncateUrl \<or> f = truncateUrl_gated"
  shows "f (f s) = f s
    \<and> length (f s) \<le> 50
    \<and> (50 < length s \<longrightarrow> length (f s) = 50)"
proof -
  from assms have f: "f = truncateUrl"
    by (auto simp: truncateUrl_gated_eq)
  have "truncateUrl (truncateUrl s) = truncateUrl s"
    using length_truncateUrl_le [of s] by (rule truncateUrl_short)
  then show ?thesis
    unfolding f by (simp add: length_truncateUrl_le length_truncateUrl_long)
qed

theorem truncateUrl_idempotent_bounded_witness:
  "truncateUrl (truncateUrl (replicate 60 CHR ''a'')) = truncateUrl (replicate 60 CHR ''a'')
   \<and> length (truncateUrl (replicate 60 CHR ''a'')) \<le> 50
   \<and> 50 < length (replicate 60 CHR ''a'')
   \<and> length (truncateUrl (replicate 60 CHR ''a'')) = 50"
  using truncateUrl_idempotent_bounded [of truncateUrl "replicate 60 CHR ''a''"] by simp

section \<open>Properties of the describer\<close>

lemma getStepDetails_gated_eq: "getStepDetails_gated = getStepDetails"
  by (simp add: fun_eq_iff getStepDetails_gated_def getStepDetails_def)

lemma getStepDetails_inherited:
  "ph \<in> set objectPrototypeKeys \<Longrightarrow> getStepDetails ph stg = JSInherited ph"
  by (auto simp: getStepDetails_def get_property_def js_or_def objectPrototypeKeys_def)








section \<open>Properties of the step derivation\<close>

lemma getStepsFromState_gated_eq: "getStepsFromState_gated = getStepsFromState"
  by (simp add: fun_eq_iff getStepsFromState_gated_def getStepsFromState_def
      getStepDetails_gated_eq)

lemma logs_gated_eq: "logs_gated = logs"
  by (simp add: fun_eq_iff logs_gated_def logs_def)


lemma length_allPhases: "length allPhases = 5"
  by (simp add: allPhases_def)


lemma length_steps: "length (getStepsFromState st) = 5"
  by (simp add: getStepsFromState_def length_allPhases)






section \<open>Properties of the log entries\<close>

lemma length_logs: "length (logs steps) = length steps"
  by (simp add: logs_def)







section \<open>Properties of the progress log and of the two pages\<close>

lemma sources_found_of_SomeD:
  assumes "sources_found_of st = Some n"
  shows "\<exists>s r. st = Some s \<and> research s = Some r \<and> sources_found r = Some n"
  using assms
  by (cases st) (auto simp: sources_found_of_def split: Option.bind_splits)

lemma render_gated_open:
  assumes "run_status = ''inProgress'' \<or> run_status = ''complete''"
  shows "render_gated run_status rt
     = (Inr (Progress (logs (getStepsFromState (agent_state rt))) (agent_state rt)),
        rt\<lparr>isResearchInProgress := True\<rparr>)"
proof (cases "sources_found_of (agent_state rt)")
  case None
  with assms show ?thesis
    by (auto simp: render_gated_def Progress_def Let_def getStepsFromState_gated_eq
        logs_gated_eq truncateUrl_gated_eq length_logs length_steps)
next
  case (Some n)
  then obtain s r where "agent_state rt = Some s" "research s = Some r" "sources_found r = Some n"
    using sources_found_of_SomeD by blast
  with assms Some show ?thesis
    by (auto simp: render_gated_def Progress_def Let_def getStepsFromState_gated_eq
        logs_gated_eq truncateUrl_gated_eq length_logs length_steps strict_def)
qed


lemma Progress_source_count:
  assumes "ls \<noteq> []"
  shows "\<exists>v. Progress ls st = Some v \<and> source_count v =
     (case sources_found_of st of
        None \<Rightarrow> None
      | Some n \<Rightarrow> if 0 < n
          then Some (''Found '' @ number_text n @ '' source'' @ (if n = 1 then [] else ''s''))
          else None)"
  using assms by (auto simp: Progress_def jsx_number_def split: option.splits)

lemma logs_steps_nonempty: "logs (getStepsFromState st) \<noteq> []"
  using length_logs [of "getStepsFromState st"] length_steps [of st] by auto

lemma number_text_1: "number_text 1 = ''1''"
  by (simp add: number_text_def nat_text.simps)

lemma number_text_2: "number_text 2 = ''2''"
  by (simp add: number_text_def nat_text.simps)

text \<open>
  Claim C8. In the progress log of either page the count of sources is shown iff
  \<^verbatim>\<open>sources_found\<close> is greater than 0, as \<^verbatim>\<open>Found n source\<close> with an
  \<^verbatim>\<open>s\<close> appended unless \<open>n\<close> is 1: nothing for 0, \<^verbatim>\<open>Found 1 source\<close> for 1,
  \<^verbatim>\<open>Found 2 sources\<close> for 2.
\<close>

theorem source_count_indicator:
  assumes "ls \<noteq> []"
    and "run_status = ''inProgress'' \<or> run_status = ''complete''"
    and "agent_state rt = st"
  shows "\<exists>v w. Progress ls st = Some v \<and> fst (render_gated run_status rt) = Inr (Some w)
    \<and> source_count w = source_count v
    \<and> ((source_count v \<noteq> None) = (\<exists>n. sources_found_of st = Some n \<and> 0 < n))
    \<and> (\<forall>n. sources_found_of st = Some n \<and> 0 < n \<longrightarrow>
          source_count v
            = Some (''Found '' @ number_text n @ '' source'' @ (if n = 1 then [] else ''s'')))
    \<and> (sources_found_of st = Some 0 \<longrightarrow> source_count v = None)
    \<and> (sources_found_of st = Some 1 \<longrightarrow> source_count v = Some ''Found 1 source'')
    \<and> (sources_found_of st = Some 2 \<longrightarrow> source_count v = Some ''Found 2 sources'')"
proof -
  let ?shown = "case sources_found_of st of
        None \<Rightarrow> None
      | Some n \<Rightarrow> if 0 < n
          then Some (''Found '' @ number_text n @ '' source'' @ (if n = 1 then [] else ''s''))
          else None"
  from assms(1) obtain v where v: "Progress ls st = Some v" "source_count v = ?shown"
    using Progress_source_count by blast
  obtain w where w: "Progress (logs (getStepsFromState st)) st = Some w"
      "source_count w = ?shown"
    using Progress_source_count [OF logs_steps_nonempty] by blast
  from assms(2,3) w have gated: "fst (render_gated run_status rt) = Inr (Some w)"
    by (simp add: render_gated_open)
  have "(source_count v \<noteq> None) = (\<exists>n. sources_found_of st = Some n \<and> 0 < n)"
    by (simp add: v split: option.splits)
  moreover have "\<forall>n. sources_found_of st = Some n \<and> 0 < n \<longrightarrow>
          source_count v
            = Some (''Found '' @ number_text n @ '' source'' @ (if n = 1 then [] else ''s''))"
    by (simp add: v)
  moreover have "sources_found_of st = Some 0 \<longrightarrow> source_count v = None"
    by (simp add: v)
  moreover have "sources_found_of st = Some 1 \<longrightarrow> source_count v = Some ''Found 1 source''"
    by (simp add: v number_text_1)
  moreover have "sources_found_of st = Some 2 \<longrightarrow> source_count v = Some ''Found 2 sources''"
    by (simp add: v number_text_2)
  ultimately show ?thesis
    using v w gated by auto
qed

theorem source_count_indicator_witness:
  "map_option source_count
       (Progress [\<lparr>log_done = False, message = ''Initialized: Setting up research parameters''\<rparr>]
          (Some (initialState\<lparr>research := Some \<lparr>query = Some ''penguins'',
             stage = Some ''searching'', sources_found = Some 2, sources = Some [],
             research_completed = Some False\<rparr>\<rparr>)))
     = Some (Some ''Found 2 sources'')"
proof -
  let ?st = "Some (initialState\<lparr>research := Some \<lparr>query = Some ''penguins'',
             stage = Some ''searching'', sources_found = Some 2, sources = Some [],
             research_completed = Some False\<rparr>\<rparr>)"
  let ?ls = "[\<lparr>log_done = False, message = ''Initialized: Setting up research parameters''\<rparr>]"
  have two: "sources_found_of ?st = Some 2"
    by (simp add: sources_found_of_def)
  have "agent_state (initialRuntime\<lparr>agent_state := ?st\<rparr>) = ?st"
    by simp
  then show ?thesis
    using two source_count_indicator [of ?ls "''inProgress''" "initialRuntime\<lparr>agent_state := ?st\<rparr>" ?st]
    by auto
qed



section \<open>Properties of the presenter\<close>

lemma QuestionCard_ok: "\<exists>q. QuestionCard st = Inr q \<and> (query_of st = None \<longrightarrow> q = None)"
  by (cases st) (auto simp: QuestionCard_def strict_def truthy_def query_of_def split: option.splits)

lemma SourcesCard_ok: "\<exists>c. SourcesCard st = Inr c \<and> (sources_of st = None \<longrightarrow> c = None)"
  by (cases st) (auto simp: SourcesCard_def strict_def sources_of_def Let_def split: option.splits)

lemma ReportCanvas_ok:
  "\<exists>v. ReportCanvas st running = Inr v
     \<and> report_card v = ReportCardOf st running \<and> status_card v = StatusCard st running
     \<and> (query_of st = None \<longrightarrow> question_card v = None)
     \<and> (sources_of st = None \<longrightarrow> sources_card v = None)"
  using QuestionCard_ok [of st] SourcesCard_ok [of st]
  by (auto simp: ReportCanvas_def)

text \<open>
  Claim C9, as the specification states it, fails: a report that is the empty string is
  not null, and the presenter shows the placeholder for it.
\<close>

theorem ReportCanvas_empty_report_counterexample:
  "report_of (Some (state_with_report (Some []))) = Some []
   \<and> ReportCanvas (Some (state_with_report (Some []))) True
     = Inr \<lparr>question_card = None, status_card = True,
            report_card = Placeholder ''Generating Report''
              ''Your research report will appear here once the analysis is complete.'' None,
            sources_card = None\<rparr>"
  by (simp add: state_with_report_def initialState_def report_of_def ReportCanvas_def
      QuestionCard_def SourcesCard_def StatusCard_def ReportCardOf_def truthy_def
      query_of_def sources_of_def strict_def)

text \<open>
  Claim C9, amended. The presenter never fails. When the report is a non-empty string
  it is handed to the markdown renderer; when it is missing or the empty string the
  placeholder is shown, with the heading \<^verbatim>\<open>Generating Report\<close> and its message
  when \<open>running\<close>, and the heading \<^verbatim>\<open>Ready to Research\<close> and its message
  otherwise. The two headings differ, and so do the two messages.
\<close>

theorem ReportCanvas_report_or_placeholder:
  "\<exists>v. ReportCanvas st running = Inr v
    \<and> (\<forall>r. report_of st = Some r \<and> r \<noteq> [] \<longrightarrow> report_card v = ReportBody (Some r))
    \<and> (report_of st = None \<or> report_of st = Some [] \<longrightarrow>
         (\<exists>badge. report_card v =
            Placeholder
              (if running then ''Generating Report'' else ''Ready to Research'')
              (if running
               then ''Your research report will appear here once the analysis is complete.''
               else ''Ask me to research any topic and I'' @ [CHR 0x27]
                 @ ''ll generate a comprehensive, well-structured report for you.'')
              badge))
    \<and> ''Generating Report'' \<noteq> ''Ready to Research''
    \<and> ''Your research report will appear here once the analysis is complete.''
        \<noteq> ''Ask me to research any topic and I'' @ [CHR 0x27]
          @ ''ll generate a comprehensive, well-structured report for you.''"
proof -
  obtain v where v: "ReportCanvas st running = Inr v"
      "report_card v = ReportCardOf st running"
    using ReportCanvas_ok by blast
  have "\<forall>r. report_of st = Some r \<and> r \<noteq> [] \<longrightarrow> report_card v = ReportBody (Some r)"
    by (simp add: v ReportCardOf_def truthy_def)
  moreover have "report_of st = None \<or> report_of st = Some [] \<longrightarrow>
         (\<exists>badge. report_card v =
            Placeholder
              (if running then ''Generating Report'' else ''Ready to Research'')
              (if running
               then ''Your research report will appear here once the analysis is complete.''
               else ''Ask me to research any topic and I'' @ [CHR 0x27]
                 @ ''ll generate a comprehensive, well-structured report for you.'')
              badge)"
    by (auto simp: v ReportCardOf_def truthy_def)
  ultimately show ?thesis
    using v(1) by simp
qed

theorem ReportCanvas_report_or_placeholder_witness:
  "map_sum id report_card (ReportCanvas (Some (state_with_report (Some ''# Title''))) True)
     = Inr (ReportBody (Some ''# Title''))
   \<and> (\<exists>badge. map_sum id report_card (ReportCanvas (Some (state_with_report None)) False)
     = Inr (Placeholder ''Ready to Research''
         (''Ask me to research any topic and I'' @ [CHR 0x27]
            @ ''ll generate a comprehensive, well-structured report for you.'') badge))"
proof -
  have a: "report_of (Some (state_with_report (Some ''# Title''))) = Some ''# Title''"
    and b: "report_of (Some (state_with_report None)) = None"
    by (simp_all add: state_with_report_def report_of_def)
  from a have "map_sum id report_card
        (ReportCanvas (Some (state_with_report (Some ''# Title''))) True)
     = Inr (ReportBody (Some ''# Title''))"
    using ReportCanvas_report_or_placeholder
      [of "Some (state_with_report (Some ''# Title''))" True]
    by auto
  moreover from b have "\<exists>badge. map_sum id report_card
        (ReportCanvas (Some (state_with_report None)) False)
     = Inr (Placeholder ''Ready to Research''
         (''Ask me to research any topic and I'' @ [CHR 0x27]
            @ ''ll generate a comprehensive, well-structured report for you.'') badge)"
    using ReportCanvas_report_or_placeholder [of "Some (state_with_report None)" False]
    by auto
  ultimately show ?thesis by blast
qed

section \<open>Totality over partial states\<close>




section \<open>Properties of the run controller\<close>

















end
